theory Spec2Isabelle
  imports Complex_Main
begin

section \<open>Arrays and floating-point samples\<close>

text \<open>
  A NumPy array is its shape together with its samples in row-major order. The pipeline
  of \<^verbatim>\<open>ocrlib/nlbin.py\<close> works on arrays of floats. A finite float is modelled by the
  real number it stands for (arithmetic on finite samples is exact, rounding and overflow
  are outside the model); the IEEE special values that NumPy produces instead of raising
  (a division by zero, the percentile or the mean of no samples) are the three extra
  constructors of \<open>npfloat\<close>.
\<close>

record 'a ndarray =
  shape :: "nat list"
  data :: "'a list"


definition amap :: "('a \<Rightarrow> 'b) \<Rightarrow> 'a ndarray \<Rightarrow> 'b ndarray" where
  "amap f a = \<lparr>shape = shape a, data = map f (data a)\<rparr>"

datatype npfloat = Fin real | PInf | NInf | NaN

datatype error =
    ColorImage          \<comment> \<open>ValueError: input image is color image\<close>
  | MayBeInverted       \<comment> \<open>ValueError: image may be inverted\<close>
  | NotTallEnough       \<comment> \<open>ValueError: image not tall enough for a page image\<close>
  | TooTall             \<comment> \<open>ValueError: image too tall for a page image\<close>
  | TooNarrow           \<comment> \<open>ValueError: image too narrow for a page image\<close>
  | TooWide             \<comment> \<open>ValueError: line too wide for a page image\<close>
  | ImageIsEmpty        \<comment> \<open>ValueError: image is empty\<close>
  | NotTwoDimensional   \<comment> \<open>ValueError or IndexError: an array that is not 2-dimensional is
                            unpacked or indexed as one\<close>
  | ZeroSizeReduction   \<comment> \<open>ValueError: zero-size array to reduction operation\<close>
  | ZeroDivisionError   \<comment> \<open>float division by zero on Python floats\<close>
  | EmptyMax            \<comment> \<open>ValueError: max() arg is an empty sequence\<close>
  | NegativeSamples     \<comment> \<open>ValueError: number of samples must be non-negative\<close>
  | AxisError           \<comment> \<open>axis 1 is out of bounds for the array\<close>
  | ShapeMismatch       \<comment> \<open>ValueError or IndexError: operands or mask of different shapes\<close>
  | LibraryError        \<comment> \<open>an exception raised inside a SciPy routine\<close>
  | NameError           \<comment> \<open>a name that is bound to no array of floats\<close>

text \<open>An exception ends the computation: the stages are chained with \<open>bindE\<close>.\<close>

definition bindE :: "'e + 'a \<Rightarrow> ('a \<Rightarrow> 'e + 'b) \<Rightarrow> 'e + 'b" where
  "bindE m f = (case m of Inl e \<Rightarrow> Inl e | Inr x \<Rightarrow> f x)"

subsection \<open>IEEE arithmetic on samples\<close>

fun fl_eq :: "npfloat \<Rightarrow> npfloat \<Rightarrow> bool" where
  "fl_eq (Fin a) (Fin b) = (a = b)"
| "fl_eq PInf PInf = True"
| "fl_eq NInf NInf = True"
| "fl_eq _ _ = False"

fun fl_less :: "npfloat \<Rightarrow> npfloat \<Rightarrow> bool" where
  "fl_less NaN _ = False"
| "fl_less _ NaN = False"
| "fl_less (Fin a) (Fin b) = (a < b)"
| "fl_less NInf NInf = False"
| "fl_less NInf _ = True"
| "fl_less _ NInf = False"
| "fl_less PInf _ = False"
| "fl_less _ PInf = True"

definition fl_gt :: "npfloat \<Rightarrow> npfloat \<Rightarrow> bool" where
  "fl_gt x y = fl_less y x"

fun fl_neg :: "npfloat \<Rightarrow> npfloat" where
  "fl_neg (Fin a) = Fin (- a)"
| "fl_neg PInf = NInf"
| "fl_neg NInf = PInf"
| "fl_neg NaN = NaN"

fun fl_add :: "npfloat \<Rightarrow> npfloat \<Rightarrow> npfloat" where
  "fl_add NaN _ = NaN"
| "fl_add _ NaN = NaN"
| "fl_add (Fin a) (Fin b) = Fin (a + b)"
| "fl_add PInf NInf = NaN"
| "fl_add NInf PInf = NaN"
| "fl_add PInf _ = PInf"
| "fl_add NInf _ = NInf"
| "fl_add _ PInf = PInf"
| "fl_add _ NInf = NInf"

definition fl_sub :: "npfloat \<Rightarrow> npfloat \<Rightarrow> npfloat" where
  "fl_sub x y = fl_add x (fl_neg y)"

text \<open>The sign of a value, for the infinities that a product or a quotient yields.\<close>

fun fl_sign :: "npfloat \<Rightarrow> int" where
  "fl_sign (Fin a) = (if a < 0 then -1 else if a = 0 then 0 else 1)"
| "fl_sign PInf = 1"
| "fl_sign NInf = -1"
| "fl_sign NaN = 0"

definition fl_inf :: "int \<Rightarrow> npfloat" where
  "fl_inf s = (if s < 0 then NInf else PInf)"

fun fl_mul :: "npfloat \<Rightarrow> npfloat \<Rightarrow> npfloat" where
  "fl_mul NaN _ = NaN"
| "fl_mul _ NaN = NaN"
| "fl_mul (Fin a) (Fin b) = Fin (a * b)"
| "fl_mul x y = (if fl_sign x * fl_sign y = 0 then NaN else fl_inf (fl_sign x * fl_sign y))"

text \<open>
  Division never raises on NumPy arrays: a non-zero sample over zero is an infinity and
  zero over zero is NaN. The zero of the model is the positive zero, which is what
  \<open>hi - lo\<close> is when both are the same finite value.
\<close>

fun fl_div :: "npfloat \<Rightarrow> npfloat \<Rightarrow> npfloat" where
  "fl_div NaN _ = NaN"
| "fl_div _ NaN = NaN"
| "fl_div (Fin a) (Fin b) =
     (if b \<noteq> 0 then Fin (a / b) else if a = 0 then NaN else if a < 0 then NInf else PInf)"
| "fl_div (Fin a) _ = Fin 0"
| "fl_div x (Fin b) = (if b < 0 then fl_neg x else x)"
| "fl_div _ _ = NaN"

fun fl_sqrt :: "npfloat \<Rightarrow> npfloat" where
  "fl_sqrt (Fin a) = (if a < 0 then NaN else Fin (sqrt a))"
| "fl_sqrt PInf = PInf"
| "fl_sqrt _ = NaN"

text \<open>\<^verbatim>\<open>np.clip(x, 0, 1)\<close> on one sample: NaN stays NaN.\<close>

fun fl_clip :: "real \<Rightarrow> real \<Rightarrow> npfloat \<Rightarrow> npfloat" where
  "fl_clip lo hi (Fin a) = Fin (min (max a lo) hi)"
| "fl_clip lo hi PInf = Fin hi"
| "fl_clip lo hi NInf = Fin (min lo hi)"
| "fl_clip lo hi NaN = NaN"

definition clip :: "real \<Rightarrow> real \<Rightarrow> real \<Rightarrow> real" where
  "clip lo hi a = min (max a lo) hi"

definition in_unit :: "npfloat \<Rightarrow> bool" where
  "in_unit x = (case x of Fin a \<Rightarrow> 0 \<le> a \<and> a \<le> 1 | _ \<Rightarrow> False)"

subsection \<open>NumPy reductions\<close>

text \<open>\<^verbatim>\<open>np.amin\<close> and \<^verbatim>\<open>np.amax\<close> raise ValueError on an array without samples.\<close>

fun np_amin :: "real list \<Rightarrow> error + real" where
  "np_amin [] = Inl ZeroSizeReduction"
| "np_amin (x # xs) = Inr (fold min xs x)"

fun np_amax :: "real list \<Rightarrow> error + real" where
  "np_amax [] = Inl ZeroSizeReduction"
| "np_amax (x # xs) = Inr (fold max xs x)"

text \<open>\<^verbatim>\<open>np.mean\<close> and \<^verbatim>\<open>np.median\<close> of no samples are NaN (with a warning).\<close>

definition np_mean :: "real list \<Rightarrow> npfloat" where
  "np_mean xs = (if xs = [] then NaN else Fin (sum_list xs / real (length xs)))"

definition np_median :: "real list \<Rightarrow> npfloat" where
  "np_median xs =
     (if xs = [] then NaN
      else let s = sort xs; n = length xs
           in if odd n then Fin (s ! (n div 2))
              else Fin ((s ! (n div 2 - 1) + s ! (n div 2)) / 2))"

section \<open>Input validation: \<^verbatim>\<open>check_page\<close>\<close>

definition check_page :: "real ndarray \<Rightarrow> error + unit" where
  "check_page img =
     (if length (shape img) = 3 then Inl ColorImage
      else if fl_less (np_mean (data img)) (np_median (data img)) then Inl MayBeInverted
      else case shape img of
             [h, w] \<Rightarrow>
               if h < 600 then Inl NotTallEnough
               else if h > 10000 then Inl TooTall
               else if w < 600 then Inl TooNarrow
               else if w > 10000 then Inl TooWide
               else Inr ()
           | _ \<Rightarrow> Inl NotTwoDimensional)"

section \<open>Normalisation: \<^verbatim>\<open>normalize_raw_image\<close>\<close>

text \<open>
  \<^verbatim>\<open>image = raw - np.amin(raw)\<close> allocates a new array; the test compares the extrema of
  that array and the division \<^verbatim>\<open>image /= np.amax(image)\<close> happens only when they differ.
\<close>

definition normalize_raw_image :: "real ndarray \<Rightarrow> error + real ndarray" where
  "normalize_raw_image raw =
     bindE (np_amin (data raw)) (\<lambda>lo.
       let img = amap (\<lambda>x. x - lo) raw in
       bindE (np_amax (data img)) (\<lambda>mx.
       bindE (np_amin (data img)) (\<lambda>mn.
         if mx = mn then Inl ImageIsEmpty
         else Inr (amap (\<lambda>x. x / mx) img))))"

section \<open>Slicing and element-wise operations\<close>

text \<open>\<^verbatim>\<open>int(x)\<close> on a float truncates towards zero.\<close>

definition py_int :: "real \<Rightarrow> int" where
  "py_int x = (if 0 \<le> x then \<lfloor>x\<rfloor> else \<lceil>x\<rceil>)"

text \<open>
  A slice bound on an axis of length \<open>n\<close>: a negative bound counts from the end, and
  every bound is clamped to the axis. The slice \<^verbatim>\<open>xs[s:e]\<close> is empty when the
  resolved stop is not after the resolved start.
\<close>

definition slice_index :: "nat \<Rightarrow> int \<Rightarrow> nat" where
  "slice_index n i = (if i < 0 then nat (max (i + int n) 0) else min (nat i) n)"

definition py_slice :: "'a list \<Rightarrow> int \<Rightarrow> int \<Rightarrow> 'a list" where
  "py_slice xs s e =
     (let n = length xs; lo = slice_index n s; hi = slice_index n e
      in take (hi - lo) (drop lo xs))"

definition rows_of :: "nat \<Rightarrow> nat \<Rightarrow> 'a list \<Rightarrow> 'a list list" where
  "rows_of d0 d1 xs = map (\<lambda>i. take d1 (drop (i * d1) xs)) [0..<d0]"

text \<open>\<^verbatim>\<open>a[s0:e0, s1:e1]\<close> for an array of shape \<open>(d0, d1)\<close> with samples \<open>xs\<close>.\<close>

definition slice2 :: "nat \<Rightarrow> nat \<Rightarrow> 'a list \<Rightarrow> int \<Rightarrow> int \<Rightarrow> int \<Rightarrow> int \<Rightarrow> 'a ndarray" where
  "slice2 d0 d1 xs s0 e0 s1 e1 =
     \<lparr>shape = [slice_index d0 e0 - slice_index d0 s0, slice_index d1 e1 - slice_index d1 s1],
      data = concat (map (\<lambda>row. py_slice row s1 e1) (py_slice (rows_of d0 d1 xs) s0 e0))\<rparr>"

text \<open>An element-wise operation on two arrays of one shape.\<close>

definition azip :: "('a \<Rightarrow> 'b \<Rightarrow> 'c) \<Rightarrow> 'a ndarray \<Rightarrow> 'b ndarray \<Rightarrow> error + 'c ndarray" where
  "azip f a b =
     (if shape a = shape b
      then Inr \<lparr>shape = shape a, data = map (\<lambda>(x, y). f x y) (zip (data a) (data b))\<rparr>
      else Inl ShapeMismatch)"

section \<open>The SciPy primitives\<close>

text \<open>
  The filters and interpolations of \<^verbatim>\<open>scipy.ndimage\<close> and the percentile of
  \<^verbatim>\<open>scipy.stats\<close> are not code of this repository: the pipeline is parametrised by them.
  Each takes the arguments that the source passes and returns a fresh array or raises.
  \<open>ndi_rotate\<close> takes the angle, the spline order and the \<^verbatim>\<open>reshape\<close> flag; the
  mode is \<^verbatim>\<open>"constant"\<close> at both call sites.
\<close>

record prims =
  ndi_zoom :: "real ndarray \<Rightarrow> real \<Rightarrow> error + real ndarray"
  ndi_percentile_filter :: "real ndarray \<Rightarrow> real \<Rightarrow> int \<times> int \<Rightarrow> error + real ndarray"
  ndi_rotate :: "real ndarray \<Rightarrow> real \<Rightarrow> nat \<Rightarrow> bool \<Rightarrow> error + real ndarray"
  ndi_gaussian_filter :: "real ndarray \<Rightarrow> real \<Rightarrow> error + real ndarray"
  ndi_binary_dilation :: "bool ndarray \<Rightarrow> int \<times> int \<Rightarrow> error + bool ndarray"
  stats_scoreatpercentile :: "real list \<Rightarrow> real \<Rightarrow> error + npfloat"

section \<open>Background flattening: \<^verbatim>\<open>estimate_local_whitelevel\<close>\<close>

text \<open>
  The debug plots do not touch the result and are left out. \<^verbatim>\<open>1.0 / zoom\<close> is a
  division of Python floats and raises for \<open>zoom = 0\<close>. The element-wise minimum of
  the two shapes unpacks into \<open>w, h\<close> and both arrays are indexed \<^verbatim>\<open>[:w, :h]\<close>;
  one of these steps raises unless both arrays are 2-dimensional.
\<close>

definition estimate_local_whitelevel ::
    "prims \<Rightarrow> real ndarray \<Rightarrow> real \<Rightarrow> real \<Rightarrow> int \<Rightarrow> error + real ndarray" where
  "estimate_local_whitelevel P img zoom perc rng =
     bindE (ndi_zoom P img zoom) (\<lambda>m.
     bindE (ndi_percentile_filter P m perc (rng, 2)) (\<lambda>m.
     bindE (ndi_percentile_filter P m perc (2, rng)) (\<lambda>m.
     if zoom = 0 then Inl ZeroDivisionError else
     bindE (ndi_zoom P m (1 / zoom)) (\<lambda>m.
       case (shape img, shape m) of
         ([i0, i1], [m0, m1]) \<Rightarrow>
           let w = int (min i0 m0); h = int (min i1 m1) in
           bindE (azip (\<lambda>x y. x - y + 1)
                    (slice2 i0 i1 (data img) 0 w 0 h) (slice2 m0 m1 (data m) 0 w 0 h)) (\<lambda>d.
           Inr (amap (clip 0 1) d))
       | _ \<Rightarrow> Inl NotTwoDimensional))))"

section \<open>Skew estimation: \<^verbatim>\<open>estimate_skew_angle\<close> and \<^verbatim>\<open>estimate_skew\<close>\<close>

text \<open>
  \<^verbatim>\<open>np.mean(x, axis=1)\<close>: the mean over the second axis, one value for each position of
  the other axes; for a 2-dimensional array these are the row means. The mean of no
  samples is NaN.
\<close>

definition mean_axis1 :: "real ndarray \<Rightarrow> error + npfloat list" where
  "mean_axis1 a =
     (case shape a of
        d0 # d1 # rest \<Rightarrow>
          let r = prod_list rest in
          Inr (concat (map (\<lambda>i. map (\<lambda>k.
                 np_mean (map (\<lambda>j. data a ! ((i * d1 + j) * r + k)) [0..<d1])) [0..<r]) [0..<d0]))
      | _ \<Rightarrow> Inl AxisError)"

definition is_fin :: "npfloat \<Rightarrow> bool" where
  "is_fin x = (case x of Fin _ \<Rightarrow> True | _ \<Rightarrow> False)"

definition fin_val :: "npfloat \<Rightarrow> real" where
  "fin_val x = (case x of Fin a \<Rightarrow> a | _ \<Rightarrow> 0)"

text \<open>
  \<^verbatim>\<open>np.var\<close>: the mean squared deviation from the mean; NaN for no values and as soon as
  one value is not finite.
\<close>

definition np_var :: "npfloat list \<Rightarrow> npfloat" where
  "np_var vs =
     (if vs = [] \<or> \<not> list_all is_fin vs then NaN
      else let xs = map fin_val vs; n = real (length xs); mu = sum_list xs / n
           in Fin (sum_list (map (\<lambda>x. (x - mu)\<^sup>2) xs) / n))"

text \<open>
  The builtin \<^verbatim>\<open>max\<close> keeps the first item and replaces it by a later item only when that
  one compares greater. Tuples compare by their first components unless these are equal,
  and then by their second components.
\<close>

fun tuple_gt :: "npfloat \<times> real \<Rightarrow> npfloat \<times> real \<Rightarrow> bool" where
  "tuple_gt (v1, a1) (v2, a2) = (if fl_eq v1 v2 then a1 > a2 else fl_gt v1 v2)"

fun py_max :: "(npfloat \<times> real) list \<Rightarrow> error + npfloat \<times> real" where
  "py_max [] = Inl EmptyMax"
| "py_max (x # xs) = Inr (fold (\<lambda>y m. if tuple_gt y m then y else m) xs x)"

text \<open>The loop of \<^verbatim>\<open>estimate_skew_angle\<close>: one pair (variance, angle) for each angle.\<close>

fun skew_estimates :: "prims \<Rightarrow> real ndarray \<Rightarrow> real list \<Rightarrow> error + (npfloat \<times> real) list" where
  "skew_estimates P img [] = Inr []"
| "skew_estimates P img (a # as) =
     bindE (ndi_rotate P img a 0 True) (\<lambda>r.
     bindE (mean_axis1 r) (\<lambda>v.
     bindE (skew_estimates P img as) (\<lambda>rest.
     Inr ((np_var v, a) # rest))))"

definition estimate_skew_angle :: "prims \<Rightarrow> real ndarray \<Rightarrow> real list \<Rightarrow> error + real" where
  "estimate_skew_angle P img angles =
     bindE (skew_estimates P img angles) (\<lambda>estimates.
     bindE (py_max estimates) (\<lambda>(v, a). Inr a))"

text \<open>
  \<^verbatim>\<open>np.linspace(start, stop, num)\<close>: \<open>num\<close> samples from \<open>start\<close> to \<open>stop\<close>, both
  included; only \<open>start\<close> when \<open>num = 1\<close>; a negative \<open>num\<close> raises.
\<close>

definition linspace :: "real \<Rightarrow> real \<Rightarrow> int \<Rightarrow> error + real list" where
  "linspace start stop num =
     (if num < 0 then Inl NegativeSamples
      else Inr (map (\<lambda>i. if num = 1 then start
                          else start + real i * ((stop - start) / real_of_int (num - 1)))
                  [0..<nat num]))"

definition estimate_skew ::
    "prims \<Rightarrow> real ndarray \<Rightarrow> real \<Rightarrow> real \<Rightarrow> int \<Rightarrow> error + real ndarray \<times> real" where
  "estimate_skew P flat bignore maxskew skewsteps =
     (case shape flat of
        [d0, d1] \<Rightarrow>
          let o0 = py_int (bignore * real d0); o1 = py_int (bignore * real d1) in
          bindE (np_amax (data flat)) (\<lambda>mx.
          let flat = amap (\<lambda>x. mx - x) flat in
          bindE (np_amin (data flat)) (\<lambda>mn.
          let flat = amap (\<lambda>x. x - mn) flat;
              est = slice2 d0 d1 (data flat) o0 (int d0 - o0) o1 (int d1 - o1);
              ma = maxskew;
              ms = py_int (2 * maxskew * real_of_int skewsteps) in
          bindE (linspace (- ma) ma (ms + 1)) (\<lambda>angles.
          bindE (estimate_skew_angle P est angles) (\<lambda>angle.
          bindE (ndi_rotate P flat angle 3 False) (\<lambda>flat.
          bindE (np_amax (data flat)) (\<lambda>mx.
          Inr (amap (\<lambda>x. mx - x) flat, angle)))))))
      | _ \<Rightarrow> Inl NotTwoDimensional)"

section \<open>Threshold estimation: \<^verbatim>\<open>estimate_thresholds\<close>\<close>

text \<open>\<^verbatim>\<open>np.amax\<close> of samples that may be NaN: NaN as soon as one sample is.\<close>

fun fl_max :: "npfloat \<Rightarrow> npfloat \<Rightarrow> npfloat" where
  "fl_max NaN _ = NaN"
| "fl_max _ NaN = NaN"
| "fl_max x y = (if fl_less x y then y else x)"

fun fl_amax :: "npfloat list \<Rightarrow> error + npfloat" where
  "fl_amax [] = Inl ZeroSizeReduction"
| "fl_amax (x # xs) = Inr (fold fl_max xs x)"

text \<open>\<^verbatim>\<open>est[v]\<close> with a boolean mask of the shape of \<open>est\<close>: the selected samples, in order.\<close>

definition mask_select :: "'a ndarray \<Rightarrow> bool ndarray \<Rightarrow> error + 'a list" where
  "mask_select a v =
     (if shape a = shape v
      then Inr (map fst (filter snd (zip (data a) (data v))))
      else Inl ShapeMismatch)"

text \<open>The mask over the text region, built when \<open>escale > 0\<close>.\<close>

definition text_mask :: "prims \<Rightarrow> real ndarray \<Rightarrow> real \<Rightarrow> error + bool ndarray" where
  "text_mask P est e =
     bindE (ndi_gaussian_filter P est (e * 20)) (\<lambda>g.
     bindE (azip (\<lambda>x y. x - y) est g) (\<lambda>v.
     bindE (ndi_gaussian_filter P (amap (\<lambda>x. x\<^sup>2) v) (e * 20)) (\<lambda>g2.
     let v = amap (\<lambda>x. fl_sqrt (Fin x)) g2 in
     bindE (fl_amax (data v)) (\<lambda>mx.
     let v = amap (\<lambda>x. fl_gt x (fl_mul (Fin (3 / 10)) mx)) v in
     bindE (ndi_binary_dilation P v (py_int (e * 50), 1)) (\<lambda>v.
     ndi_binary_dilation P v (1, py_int (e * 50)))))))"

definition estimate_thresholds ::
    "prims \<Rightarrow> real ndarray \<Rightarrow> real \<Rightarrow> real \<Rightarrow> real \<Rightarrow> real \<Rightarrow> error + npfloat \<times> npfloat" where
  "estimate_thresholds P flat bignore escale lo hi =
     (case shape flat of
        [d0, d1] \<Rightarrow>
          let o0 = py_int (bignore * real d0); o1 = py_int (bignore * real d1);
              est = slice2 d0 d1 (data flat) o0 (int d0 - o0) o1 (int d1 - o1) in
          bindE (if escale > 0
                 then bindE (text_mask P est escale) (\<lambda>v. mask_select est v)
                 else Inr (data est)) (\<lambda>samples.
          bindE (stats_scoreatpercentile P samples lo) (\<lambda>lo.
          bindE (stats_scoreatpercentile P samples hi) (\<lambda>hi.
          Inr (lo, hi))))
      | _ \<Rightarrow> Inl NotTwoDimensional)"

section \<open>The pipeline: \<^verbatim>\<open>nlbin\<close>\<close>

text \<open>
  The command-line arguments, with the defaults of the parser. \<open>arg_nocheck\<close> is
  parsed and never read: neither \<^verbatim>\<open>nlbin\<close> nor \<^verbatim>\<open>main\<close> calls \<^verbatim>\<open>check_page\<close>.
\<close>

record nlbin_args =
  arg_nocheck :: bool
  arg_threshold :: real
  arg_zoom :: real
  arg_escale :: real
  arg_bignore :: real
  arg_perc :: real
  arg_range :: int
  arg_maxskew :: real
  arg_gray :: bool
  arg_lo :: real
  arg_hi :: real
  arg_skewsteps :: int
  arg_debug :: real

definition default_args :: nlbin_args where
  "default_args =
     \<lparr>arg_nocheck = False, arg_threshold = -1, arg_zoom = 1 / 2, arg_escale = 1,
      arg_bignore = 1 / 10, arg_perc = 80, arg_range = 20, arg_maxskew = 2,
      arg_gray = False, arg_lo = 5, arg_hi = 90, arg_skewsteps = 8, arg_debug = 0\<rparr>"

text \<open>
  The assertion \<^verbatim>\<open>raw.dtype == np.float\<close> is the type of \<open>raw\<close>. The last three
  statements of \<^verbatim>\<open>nlbin\<close> are \<^verbatim>\<open>flat -= lo\<close>, \<^verbatim>\<open>flat /= hi - lo\<close> and
  \<^verbatim>\<open>np.clip(flat, 0, 1)\<close>, sample by sample. The thresholds may be NaN and the
  divisor may be zero; NumPy does not raise there.
\<close>

definition rescale_sample :: "npfloat \<Rightarrow> npfloat \<Rightarrow> real \<Rightarrow> npfloat" where
  "rescale_sample lo hi x = fl_clip 0 1 (fl_div (fl_sub (Fin x) lo) (fl_sub hi lo))"

definition nlbin :: "prims \<Rightarrow> real ndarray \<Rightarrow> nlbin_args \<Rightarrow> error + npfloat ndarray" where
  "nlbin P raw args =
     bindE (normalize_raw_image raw) (\<lambda>img.
     bindE (estimate_local_whitelevel P img (arg_zoom args) (arg_perc args) (arg_range args)) (\<lambda>flat.
     bindE (estimate_skew P flat (arg_bignore args) (arg_maxskew args) (arg_skewsteps args)) (\<lambda>(flat, angle).
     bindE (estimate_thresholds P flat (arg_bignore args) (arg_escale args) (arg_lo args) (arg_hi args)) (\<lambda>(lo, hi).
     Inr (amap (rescale_sample lo hi) flat)))))"

section \<open>The pipeline on a store of arrays\<close>

text \<open>
  To see which arrays the stages write, the five stages are modelled a second time with
  the arrays in a store. A Python name holds the address of an array. A statement
  \<^verbatim>\<open>x = e\<close> whose right-hand side computes an array (an arithmetic expression, a call of
  a NumPy or SciPy routine) stores the value in a new cell and binds the name to it; an
  augmented assignment \<^verbatim>\<open>x -= e\<close> or \<^verbatim>\<open>x /= e\<close> overwrites the cell that the name is
  bound to. The slices \<^verbatim>\<open>flat[o0:d0-o0, o1:d1-o1]\<close> are views: they are only read, and
  between their creation and their last use nothing is written, so a view is modelled by
  the value of the slice. Cells are allocated for the arrays that a stage overwrites or
  returns; the other temporaries stay values. The SciPy routines are taken to return new
  arrays and to leave their arguments alone.
\<close>

type_synonym addr = nat

datatype cell = Reals "real ndarray" | Floats "npfloat ndarray"

record store =
  mem :: "addr \<Rightarrow> cell option"
  fresh :: addr

definition alloc :: "cell \<Rightarrow> store \<Rightarrow> addr \<times> store" where
  "alloc c s = (fresh s, s\<lparr>mem := (mem s)(fresh s \<mapsto> c), fresh := Suc (fresh s)\<rparr>)"

definition assign :: "addr \<Rightarrow> cell \<Rightarrow> store \<Rightarrow> store" where
  "assign p c s = s\<lparr>mem := (mem s)(p \<mapsto> c)\<rparr>"

definition load :: "addr \<Rightarrow> store \<Rightarrow> error + real ndarray" where
  "load p s = (case mem s p of Some (Reals a) \<Rightarrow> Inr a | _ \<Rightarrow> Inl NameError)"

text \<open>An array of finite samples read as an array of floats that may hold special values.\<close>

definition load_floats :: "addr \<Rightarrow> store \<Rightarrow> error + npfloat ndarray" where
  "load_floats p s =
     (case mem s p of
        Some (Floats a) \<Rightarrow> Inr a
      | Some (Reals a) \<Rightarrow> Inr (amap Fin a)
      | None \<Rightarrow> Inl NameError)"

definition normalize_raw_image_st :: "addr \<Rightarrow> store \<Rightarrow> error + addr \<times> store" where
  "normalize_raw_image_st raw s =
     bindE (load raw s) (\<lambda>r.
     bindE (np_amin (data r)) (\<lambda>lo.
     let (img, s) = alloc (Reals (amap (\<lambda>x. x - lo) r)) s in
     bindE (load img s) (\<lambda>i.
     bindE (np_amax (data i)) (\<lambda>mx.
     bindE (np_amin (data i)) (\<lambda>mn.
     if mx = mn then Inl ImageIsEmpty else
     bindE (load img s) (\<lambda>i.
     bindE (np_amax (data i)) (\<lambda>mx.
     Inr (img, assign img (Reals (amap (\<lambda>x. x / mx) i)) s))))))))"

text \<open>No statement of \<^verbatim>\<open>estimate_local_whitelevel\<close> is an augmented assignment.\<close>

definition estimate_local_whitelevel_st ::
    "prims \<Rightarrow> addr \<Rightarrow> real \<Rightarrow> real \<Rightarrow> int \<Rightarrow> store \<Rightarrow> error + addr \<times> store" where
  "estimate_local_whitelevel_st P img zoom perc rng s =
     bindE (load img s) (\<lambda>i.
     bindE (estimate_local_whitelevel P i zoom perc rng) (\<lambda>flat.
     Inr (alloc (Reals flat) s)))"

definition estimate_skew_st ::
    "prims \<Rightarrow> addr \<Rightarrow> real \<Rightarrow> real \<Rightarrow> int \<Rightarrow> store \<Rightarrow> error + (addr \<times> real) \<times> store" where
  "estimate_skew_st P flat bignore maxskew skewsteps s =
     bindE (load flat s) (\<lambda>f.
     case shape f of
       [d0, d1] \<Rightarrow>
        (let o0 = py_int (bignore * real d0); o1 = py_int (bignore * real d1) in
         bindE (np_amax (data f)) (\<lambda>mx.
         let (flat, s) = alloc (Reals (amap (\<lambda>x. mx - x) f)) s in
         bindE (load flat s) (\<lambda>f.
         bindE (np_amin (data f)) (\<lambda>mn.
         let s = assign flat (Reals (amap (\<lambda>x. x - mn) f)) s in
         bindE (load flat s) (\<lambda>f.
         let est = slice2 d0 d1 (data f) o0 (int d0 - o0) o1 (int d1 - o1);
             ma = maxskew;
             ms = py_int (2 * maxskew * real_of_int skewsteps) in
         bindE (linspace (- ma) ma (ms + 1)) (\<lambda>angles.
         bindE (estimate_skew_angle P est angles) (\<lambda>angle.
         bindE (ndi_rotate P f angle 3 False) (\<lambda>r.
         let (flat, s) = alloc (Reals r) s in
         bindE (load flat s) (\<lambda>f.
         bindE (np_amax (data f)) (\<lambda>mx.
         let (flat, s) = alloc (Reals (amap (\<lambda>x. mx - x) f)) s in
         Inr ((flat, angle), s)))))))))))
     | _ \<Rightarrow> Inl NotTwoDimensional)"

text \<open>\<^verbatim>\<open>estimate_thresholds\<close> reads its argument and returns two numbers.\<close>

definition estimate_thresholds_st ::
    "prims \<Rightarrow> addr \<Rightarrow> real \<Rightarrow> real \<Rightarrow> real \<Rightarrow> real \<Rightarrow> store \<Rightarrow>
       error + (npfloat \<times> npfloat) \<times> store" where
  "estimate_thresholds_st P flat bignore escale lo hi s =
     bindE (load flat s) (\<lambda>f.
     bindE (estimate_thresholds P f bignore escale lo hi) (\<lambda>r.
     Inr (r, s)))"

definition nlbin_st :: "prims \<Rightarrow> addr \<Rightarrow> nlbin_args \<Rightarrow> store \<Rightarrow> error + addr \<times> store" where
  "nlbin_st P raw args s =
     bindE (normalize_raw_image_st raw s) (\<lambda>(img, s).
     bindE (estimate_local_whitelevel_st P img (arg_zoom args) (arg_perc args) (arg_range args) s)
       (\<lambda>(flat, s).
     bindE (estimate_skew_st P flat (arg_bignore args) (arg_maxskew args) (arg_skewsteps args) s)
       (\<lambda>((flat, angle), s).
     bindE (estimate_thresholds_st P flat (arg_bignore args) (arg_escale args) (arg_lo args)
              (arg_hi args) s)
       (\<lambda>((lo, hi), s).
     bindE (load_floats flat s) (\<lambda>f.
     let s = assign flat (Floats (amap (\<lambda>x. fl_sub x lo) f)) s in
     bindE (load_floats flat s) (\<lambda>f.
     let s = assign flat (Floats (amap (\<lambda>x. fl_div x (fl_sub hi lo)) f)) s in
     bindE (load_floats flat s) (\<lambda>f.
     Inr (alloc (Floats (amap (fl_clip 0 1) f)) s))))))))"

text \<open>
  A store \<open>s'\<close> extends a store \<open>s\<close> when every cell that \<open>s\<close> has allocated holds in
  \<open>s'\<close> what it holds in \<open>s\<close>.
\<close>

definition extends :: "store \<Rightarrow> store \<Rightarrow> bool" where
  "extends s s' = (fresh s \<le> fresh s' \<and> (\<forall>p. p < fresh s \<longrightarrow> mem s' p = mem s p))"

definition store1 :: "real ndarray \<Rightarrow> store" where
  "store1 a = \<lparr>mem = [0 \<mapsto> Reals a], fresh = 1\<rparr>"

section \<open>Instances of the primitives\<close>

text \<open>
  To run the pipeline on a concrete page the primitives have to be instantiated. The
  instances below are the simplest ones of the right kind: a zoom by nearest-neighbour
  sampling whose output shape is SciPy's \<^verbatim>\<open>int(round(d * zoom))\<close> on each axis, filters,
  dilation and rotation that return their argument (a window, a structuring element and
  an angle of no extent), and the percentile by linear interpolation between the two
  closest ranks, NaN when there is no sample.
\<close>

definition py_round :: "real \<Rightarrow> int" where
  "py_round x =
     (let f = \<lfloor>x\<rfloor>; d = x - real_of_int f
      in if d < 1 / 2 then f else if 1 / 2 < d then f + 1 else if even f then f else f + 1)"

definition nn_zoom :: "real ndarray \<Rightarrow> real \<Rightarrow> error + real ndarray" where
  "nn_zoom a z =
     (case shape a of
        [d0, d1] \<Rightarrow>
          let n0 = nat (py_round (real d0 * z)); n1 = nat (py_round (real d1 * z))
          in Inr \<lparr>shape = [n0, n1],
                  data = concat (map (\<lambda>i. map (\<lambda>j.
                           data a ! ((i * d0 div n0) * d1 + j * d1 div n1)) [0..<n1]) [0..<n0])\<rparr>
      | _ \<Rightarrow> Inl LibraryError)"

definition lin_percentile :: "real list \<Rightarrow> real \<Rightarrow> error + npfloat" where
  "lin_percentile xs per =
     (if xs = [] then Inr NaN
      else if per < 0 \<or> 100 < per then Inl LibraryError
      else let s = sort xs; idx = per / 100 * real (length xs - 1); i = nat \<lfloor>idx\<rfloor>
           in if real i = idx then Inr (Fin (s ! i))
              else Inr (Fin (s ! i * (real (i + 1) - idx) + s ! (i + 1) * (idx - real i))))"

definition nn_prims :: prims where
  "nn_prims =
     \<lparr>ndi_zoom = nn_zoom,
      ndi_percentile_filter = (\<lambda>a perc size. Inr a),
      ndi_rotate = (\<lambda>a angle order reshape. Inr a),
      ndi_gaussian_filter = (\<lambda>a sigma. Inr a),
      ndi_binary_dilation = (\<lambda>v structure. Inr v),
      stats_scoreatpercentile = lin_percentile\<rparr>"

subsection \<open>Notions of the specification\<close>


text \<open>
  The background (the local white level) that \<^verbatim>\<open>estimate_local_whitelevel\<close> subtracts:
  its variable \<open>m\<close> after the second zoom.
\<close>

definition background_estimate ::
    "prims \<Rightarrow> real ndarray \<Rightarrow> real \<Rightarrow> real \<Rightarrow> int \<Rightarrow> error + real ndarray" where
  "background_estimate P img zoom perc rng =
     bindE (ndi_zoom P img zoom) (\<lambda>m.
     bindE (ndi_percentile_filter P m perc (rng, 2)) (\<lambda>m.
     bindE (ndi_percentile_filter P m perc (2, rng)) (\<lambda>m.
     if zoom = 0 then Inl ZeroDivisionError else ndi_zoom P m (1 / zoom))))"

text \<open>An image of 5 rows and 5 columns: white paper with one dark diagonal.\<close>

definition page5 :: "real ndarray" where
  "page5 = \<lparr>shape = [5, 5],
             data = [1, 1, 1, 1, 0,
                     1, 1, 1, 0, 1,
                     1, 1, 0, 1, 1,
                     1, 0, 1, 1, 1,
                     0, 1, 1, 1, 1]\<rparr>"

text \<open>
  The candidate angles of \<^verbatim>\<open>estimate_skew\<close>, the second argument of its call of
  \<^verbatim>\<open>estimate_skew_angle\<close>, and the variance that the loop of \<^verbatim>\<open>estimate_skew_angle\<close>
  computes for one angle.
\<close>

definition skew_candidates :: "real \<Rightarrow> int \<Rightarrow> error + real list" where
  "skew_candidates maxskew skewsteps =
     linspace (- maxskew) maxskew (py_int (2 * maxskew * real_of_int skewsteps) + 1)"

definition skew_variance :: "prims \<Rightarrow> real ndarray \<Rightarrow> real \<Rightarrow> error + npfloat" where
  "skew_variance P img a =
     bindE (ndi_rotate P img a 0 True) (\<lambda>r.
     bindE (mean_axis1 r) (\<lambda>v. Inr (np_var v)))"


text \<open>Small pages, and a page of 500 by 800 samples that is white but for its first sample.\<close>

definition page2 :: "real ndarray" where
  "page2 = \<lparr>shape = [2, 2], data = [1, 0, 1 / 2, 1]\<rparr>"

definition page2_dark :: "real ndarray" where
  "page2_dark = \<lparr>shape = [2, 2], data = [0, 1, 1, 1]\<rparr>"





section \<open>Basic facts\<close>

lemma bindE_Inl [simp]: "bindE (Inl e) f = Inl e"
  by (simp add: bindE_def)

lemma bindE_Inr [simp]: "bindE (Inr x) f = f x"
  by (simp add: bindE_def)

lemma bindE_eq_Inr: "bindE m f = Inr y \<longleftrightarrow> (\<exists>x. m = Inr x \<and> f x = Inr y)"
  by (cases m) simp_all

lemma shape_amap [simp]: "shape (amap f a) = shape a"
  by (simp add: amap_def)

lemma data_amap [simp]: "data (amap f a) = map f (data a)"
  by (simp add: amap_def)








section \<open>Normalisation\<close>



lemma bindE_assoc: "bindE (bindE m f) g = bindE m (\<lambda>x. bindE (f x) g)"
  by (cases m) simp_all

lemma slice_index_nat [simp]: "slice_index n (int k) = min k n"
  by (simp add: slice_index_def)

lemma slice_index_0 [simp]: "slice_index n 0 = 0"
  by (simp add: slice_index_def)

lemma shape_slice2 [simp]:
  "shape (slice2 d0 d1 xs s0 e0 s1 e1) =
     [slice_index d0 e0 - slice_index d0 s0, slice_index d1 e1 - slice_index d1 s1]"
  by (simp add: slice2_def)

lemma azip_Inr:
  "azip f a b = Inr c \<longleftrightarrow>
     shape a = shape b \<and>
     c = \<lparr>shape = shape a, data = map (\<lambda>(x, y). f x y) (zip (data a) (data b))\<rparr>"
  by (auto simp: azip_def)

text \<open>An array without samples does not reach the test: \<^verbatim>\<open>np.amin\<close> raises.\<close>

lemma normalize_raw_image_no_samples:
  "data raw = [] \<Longrightarrow> normalize_raw_image raw = Inl ZeroSizeReduction"
  by (simp add: normalize_raw_image_def)

section \<open>Background flattening\<close>

lemma flattener_unfold:
  "estimate_local_whitelevel P img zoom perc rng =
     bindE (background_estimate P img zoom perc rng) (\<lambda>m.
       case (shape img, shape m) of
         ([i0, i1], [m0, m1]) \<Rightarrow>
           let w = int (min i0 m0); h = int (min i1 m1) in
           bindE (azip (\<lambda>x y. x - y + 1)
                    (slice2 i0 i1 (data img) 0 w 0 h) (slice2 m0 m1 (data m) 0 w 0 h)) (\<lambda>d.
           Inr (amap (clip 0 1) d))
       | _ \<Rightarrow> Inl NotTwoDimensional)"
  unfolding estimate_local_whitelevel_def background_estimate_def
  by (simp add: bindE_assoc if_distrib [of "\<lambda>m. bindE m _"] cong: if_cong)

lemma flattener_cases:
  assumes "estimate_local_whitelevel P img zoom perc rng = Inr flat"
  obtains m i0 i1 m0 m1 where
    "background_estimate P img zoom perc rng = Inr m"
    "shape img = [i0, i1]" "shape m = [m0, m1]"
    "flat = amap (clip 0 1)
       \<lparr>shape = [min i0 m0, min i1 m1],
        data = map (\<lambda>(x, y). x - y + 1)
          (zip (data (slice2 i0 i1 (data img) 0 (int (min i0 m0)) 0 (int (min i1 m1))))
               (data (slice2 m0 m1 (data m) 0 (int (min i0 m0)) 0 (int (min i1 m1)))))\<rparr>"
proof -
  from assms obtain m where bg: "background_estimate P img zoom perc rng = Inr m"
    and rest: "(case (shape img, shape m) of
         ([i0, i1], [m0, m1]) \<Rightarrow>
           let w = int (min i0 m0); h = int (min i1 m1) in
           bindE (azip (\<lambda>x y. x - y + 1)
                    (slice2 i0 i1 (data img) 0 w 0 h) (slice2 m0 m1 (data m) 0 w 0 h)) (\<lambda>d.
           Inr (amap (clip 0 1) d))
       | _ \<Rightarrow> Inl NotTwoDimensional) = Inr flat"
    unfolding flattener_unfold bindE_eq_Inr by blast
  from rest obtain i0 i1 m0 m1 where sh: "shape img = [i0, i1]" "shape m = [m0, m1]"
    by (auto split: list.splits)
  from rest sh have "flat = amap (clip 0 1)
       \<lparr>shape = [min i0 m0, min i1 m1],
        data = map (\<lambda>(x, y). x - y + 1)
          (zip (data (slice2 i0 i1 (data img) 0 (int (min i0 m0)) 0 (int (min i1 m1))))
               (data (slice2 m0 m1 (data m) 0 (int (min i0 m0)) 0 (int (min i1 m1)))))\<rparr>"
    by (auto simp: Let_def bindE_eq_Inr azip_Inr min.absorb1 min.absorb2)
  with bg sh show ?thesis by (rule that)
qed

lemma flattener_page5:
  "estimate_local_whitelevel nn_prims page5 (1 / 4) 80 20 =
     Inr \<lparr>shape = [4, 4], data = [1, 1, 1, 1,  1, 1, 1, 0,  1, 1, 0, 1,  1, 0, 1, 1]\<rparr>"
  by (simp add: page5_def estimate_local_whitelevel_def nn_prims_def nn_zoom_def py_round_def
      Let_def azip_def slice2_def py_slice_def slice_index_def rows_of_def amap_def clip_def
      upt_rec)

text \<open>
  C4, as stated: the flattened image has the shape of the input. It has not: the
  background is zoomed down and up again, each time to the rounded size, and image and
  background are cropped to their common shape. A page of 5 by 5 samples with zoom 1/4
  has a background of 1 by 1 and then of 4 by 4 samples, and the result is 4 by 4.
\<close>

theorem flattener_shape_counterexample:
  "shape page5 = [5, 5] \<and>
   estimate_local_whitelevel nn_prims page5 (1 / 4) 80 20 =
     Inr \<lparr>shape = [4, 4], data = [1, 1, 1, 1,  1, 1, 1, 0,  1, 1, 0, 1,  1, 0, 1, 1]\<rparr>"
  using flattener_page5 by (simp add: page5_def)

text \<open>
  C4, amended: input and background are 2-dimensional, and the shape of the flattened
  image is on each axis the smaller of the input's and the background's extent. So no
  axis is longer than the input's, and the shape is the input's when the background is
  at least as large as the input.
\<close>

theorem flattener_shape:
  assumes "estimate_local_whitelevel P img zoom perc rng = Inr flat"
  shows "\<exists>i0 i1 m m0 m1. shape img = [i0, i1] \<and>
           background_estimate P img zoom perc rng = Inr m \<and> shape m = [m0, m1] \<and>
           shape flat = [min i0 m0, min i1 m1]"
  using assms by (elim flattener_cases) auto

theorem flattener_shape_witness:
  "estimate_local_whitelevel nn_prims page5 (1 / 4) 80 20 =
     Inr \<lparr>shape = [4, 4], data = [1, 1, 1, 1,  1, 1, 1, 0,  1, 1, 0, 1,  1, 0, 1, 1]\<rparr> \<and>
   (\<exists>i0 i1 m m0 m1. shape page5 = [i0, i1] \<and>
      background_estimate nn_prims page5 (1 / 4) 80 20 = Inr m \<and> shape m = [m0, m1] \<and>
      [4, 4] = [min i0 m0, min i1 m1])"
  using flattener_shape [OF flattener_page5] flattener_page5 by simp

text \<open>
  C6. Whenever the flattener returns, its result is \<open>clip (image - background + 1) 0 1\<close>
  on the common crop of image and background, and every sample of it lies in [0, 1].
  This holds for every zoom, percentile and range, in particular for a zoom in (0, 1]
  and a range of at least 1.
\<close>

theorem flattener_in_unit_interval:
  assumes "estimate_local_whitelevel P img zoom perc rng = Inr flat"
  shows "\<exists>i0 i1 m m0 m1 w h. shape img = [i0, i1] \<and>
           background_estimate P img zoom perc rng = Inr m \<and> shape m = [m0, m1] \<and>
           w = int (min i0 m0) \<and> h = int (min i1 m1) \<and>
           azip (\<lambda>x y. clip 0 1 (x - y + 1))
             (slice2 i0 i1 (data img) 0 w 0 h) (slice2 m0 m1 (data m) 0 w 0 h) = Inr flat \<and>
           (\<forall>x \<in> set (data flat). 0 \<le> x \<and> x \<le> 1)"
  using assms
  by (elim flattener_cases)
     (auto simp: clip_def azip_Inr amap_def min.absorb1 min.absorb2 split_def)

theorem flattener_in_unit_interval_witness:
  "estimate_local_whitelevel nn_prims \<lparr>shape = [2, 2], data = [0, 1, 1 / 2, 1]\<rparr> (1 / 2) 80 20
     = Inr \<lparr>shape = [2, 2], data = [1, 1, 1, 1]\<rparr> \<and>
   list_all (\<lambda>x. 0 \<le> x \<and> x \<le> 1) [1, 1, 1, 1 :: real]"
proof -
  have run: "estimate_local_whitelevel nn_prims \<lparr>shape = [2, 2], data = [0, 1, 1 / 2, 1]\<rparr>
      (1 / 2) 80 20 = Inr \<lparr>shape = [2, 2], data = [1, 1, 1, 1]\<rparr>"
    by (simp add: estimate_local_whitelevel_def nn_prims_def nn_zoom_def py_round_def
        Let_def azip_def slice2_def py_slice_def slice_index_def rows_of_def amap_def clip_def
        upt_rec)
  from flattener_in_unit_interval [OF run] run show ?thesis by simp
qed

section \<open>Skew estimation\<close>

lemma estimate_skew_cases:
  assumes "estimate_skew P flat bignore maxskew skewsteps = Inr (out, angle)"
  obtains d0 d1 mx mn angles rot mx' where
    "shape flat = [d0, d1]"
    "np_amax (data flat) = Inr mx"
    "np_amin (map (\<lambda>x. mx - x) (data flat)) = Inr mn"
    "skew_candidates maxskew skewsteps = Inr angles"
    "estimate_skew_angle P
       (slice2 d0 d1 (map (\<lambda>x. mx - x - mn) (data flat))
          (py_int (bignore * real d0)) (int d0 - py_int (bignore * real d0))
          (py_int (bignore * real d1)) (int d1 - py_int (bignore * real d1)))
       angles = Inr angle"
    "ndi_rotate P (amap (\<lambda>x. mx - x - mn) flat) angle 3 False = Inr rot"
    "np_amax (data rot) = Inr mx'"
    "out = amap (\<lambda>x. mx' - x) rot"
proof -
  from assms obtain d0 d1 where sh: "shape flat = [d0, d1]"
    by (auto simp: estimate_skew_def split: list.splits)
  have comp: "amap (\<lambda>x. x - mn) (amap (\<lambda>x. mx - x) flat) = amap (\<lambda>x. mx - x - mn) flat"
    for mx mn :: real
    by (simp add: amap_def comp_def)
  from assms sh show ?thesis
    by (auto simp: estimate_skew_def Let_def bindE_eq_Inr skew_candidates_def comp comp_def
        intro!: that)
qed

lemma estimate_skew_page4:
  "estimate_skew nn_prims \<lparr>shape = [2, 2], data = [0, 1, 1 / 2, 1]\<rparr> (1 / 10) (1 / 4) 1 =
     Inr (\<lparr>shape = [2, 2], data = [0, 1, 1 / 2, 1]\<rparr>, - (1 / 4))"
  by (simp add: estimate_skew_def nn_prims_def Let_def py_int_def linspace_def
      estimate_skew_angle_def slice2_def py_slice_def slice_index_def rows_of_def amap_def
      mean_axis1_def np_mean_def np_var_def is_fin_def fin_val_def upt_rec)





text \<open>
  C10. The correcting rotation is called with \<^verbatim>\<open>reshape=0\<close>. Given that a rotation
  without reshaping returns an array of the shape of its argument, the deskewed image
  that \<^verbatim>\<open>estimate_skew\<close> returns has the shape of its input, for every \<open>bignore\<close>,
  \<open>maxskew\<close> and \<open>skewsteps\<close>.
\<close>

theorem estimate_skew_shape:
  assumes "\<And>a angle r. ndi_rotate P a angle 3 False = Inr r \<Longrightarrow> shape r = shape a"
    and "estimate_skew P flat bignore maxskew skewsteps = Inr (out, angle)"
  shows "shape out = shape flat"
  using assms(2) by (elim estimate_skew_cases) (use assms(1) in fastforce)

theorem estimate_skew_shape_witness:
  "estimate_skew nn_prims \<lparr>shape = [2, 2], data = [0, 1, 1 / 2, 1]\<rparr> (1 / 10) (1 / 4) 1 =
     Inr (\<lparr>shape = [2, 2], data = [0, 1, 1 / 2, 1]\<rparr>, - (1 / 4)) \<and>
   shape \<lparr>shape = [2, 2], data = [0, 1, 1 / 2, 1 :: real]\<rparr> =
   shape \<lparr>shape = [2, 2], data = [0, 1, 1 / 2, 1 :: real]\<rparr>"
proof -
  have contract: "shape r = shape a" if "ndi_rotate nn_prims a angle 3 False = Inr r"
    for a angle r using that by (simp add: nn_prims_def)
  from estimate_skew_shape [OF contract estimate_skew_page4] estimate_skew_page4
  show ?thesis by simp
qed

subsection \<open>The angle of maximal variance\<close>

lemma skew_estimates_fin:
  assumes "\<And>a. a \<in> set angles \<Longrightarrow> skew_variance P img a = Inr (Fin (V a))"
  shows "skew_estimates P img angles = Inr (map (\<lambda>a. (Fin (V a), a)) angles)"
  using assms
proof (induction angles)
  case Nil
  then show ?case by simp
next
  case (Cons a angles)
  have "skew_variance P img a = Inr (Fin (V a))" using Cons.prems by simp
  then obtain r v where r: "ndi_rotate P img a 0 True = Inr r"
    and v: "mean_axis1 r = Inr v" and var: "np_var v = Fin (V a)"
    by (auto simp: skew_variance_def bindE_eq_Inr)
  moreover have "skew_estimates P img angles = Inr (map (\<lambda>a. (Fin (V a), a)) angles)"
    using Cons by simp
  ultimately show ?case by simp
qed

lemma fold_max_lex:
  fixes V :: "real \<Rightarrow> real"
  shows "\<exists>m \<in> set (a0 # as).
           fold (\<lambda>y m. if tuple_gt y m then y else m) (map (\<lambda>a. (Fin (V a), a)) as) (Fin (V a0), a0)
             = (Fin (V m), m) \<and>
           (\<forall>b \<in> set (a0 # as). V b < V m \<or> (V b = V m \<and> b \<le> m))"
proof (induction as arbitrary: a0)
  case Nil
  then show ?case by simp
next
  case (Cons a as)
  define a' where "a' = (if tuple_gt (Fin (V a), a) (Fin (V a0), a0) then a else a0)"
  have step: "(if tuple_gt (Fin (V a), a) (Fin (V a0), a0) then (Fin (V a), a) else (Fin (V a0), a0))
      = (Fin (V a'), a')"
    by (simp add: a'_def)
  have le0: "V a0 < V a' \<or> (V a0 = V a' \<and> a0 \<le> a')"
    by (auto simp: a'_def fl_gt_def)
  have le1: "V a < V a' \<or> (V a = V a' \<and> a \<le> a')"
    by (auto simp: a'_def fl_gt_def)
  from Cons.IH [of a'] obtain m where m: "m \<in> set (a' # as)"
    and run: "fold (\<lambda>y m. if tuple_gt y m then y else m) (map (\<lambda>a. (Fin (V a), a)) as) (Fin (V a'), a')
             = (Fin (V m), m)"
    and mx: "\<forall>b \<in> set (a' # as). V b < V m \<or> (V b = V m \<and> b \<le> m)"
    by blast
  have a'_le: "V a' < V m \<or> (V a' = V m \<and> a' \<le> m)" using mx by simp
  have "m \<in> set (a0 # a # as)" using m by (auto simp: a'_def split: if_splits)
  moreover have "fold (\<lambda>y m. if tuple_gt y m then y else m)
        (map (\<lambda>a. (Fin (V a), a)) (a # as)) (Fin (V a0), a0) = (Fin (V m), m)"
    using run step by simp
  moreover have "\<forall>b \<in> set (a0 # a # as). V b < V m \<or> (V b = V m \<and> b \<le> m)"
    using mx le0 le1 a'_le by auto
  ultimately show ?case by blast
qed

text \<open>
  C3, amended: for a non-empty list of candidate angles whose variances are all finite,
  \<^verbatim>\<open>estimate_skew_angle\<close> returns a candidate whose variance is maximal, and when
  several candidates attain the maximal variance it returns the greatest of them, the last
  one of an ascending list: \<^verbatim>\<open>max\<close> compares the pairs (variance, angle), and pairs of
  equal variance by their angles.
\<close>

theorem estimate_skew_angle_max:
  assumes ne: "angles \<noteq> []"
    and fin: "\<And>a. a \<in> set angles \<Longrightarrow> skew_variance P img a = Inr (Fin (V a))"
  shows "\<exists>a. estimate_skew_angle P img angles = Inr a \<and> a \<in> set angles \<and>
           (\<forall>b \<in> set angles. V b \<le> V a) \<and>
           (\<forall>b \<in> set angles. V b = V a \<longrightarrow> b \<le> a)"
proof -
  from ne obtain a0 as where angles: "angles = a0 # as" by (cases angles) auto
  from fold_max_lex [of a0 as V] obtain m where m: "m \<in> set angles"
    and run: "py_max (map (\<lambda>a. (Fin (V a), a)) angles) = Inr (Fin (V m), m)"
    and mx: "\<forall>b \<in> set angles. V b < V m \<or> (V b = V m \<and> b \<le> m)"
    unfolding angles by auto
  have "estimate_skew_angle P img angles = Inr m"
    using skew_estimates_fin [of angles P img V, OF fin] run
    by (simp add: estimate_skew_angle_def)
  moreover have "\<forall>b \<in> set angles. V b \<le> V m" using mx by fastforce
  moreover have "\<forall>b \<in> set angles. V b = V m \<longrightarrow> b \<le> m" using mx by fastforce
  ultimately show ?thesis using m by blast
qed

lemma skew_variance_page4:
  "skew_variance nn_prims \<lparr>shape = [2, 2], data = [0, 1, 1 / 2, 1]\<rparr> a = Inr (Fin (1 / 64))"
  by (simp add: skew_variance_def nn_prims_def mean_axis1_def np_mean_def np_var_def
      is_fin_def fin_val_def upt_rec power2_eq_square)

theorem estimate_skew_angle_max_witness:
  "[- 1, 0, 1 :: real] \<noteq> [] \<and>
   estimate_skew_angle nn_prims \<lparr>shape = [2, 2], data = [0, 1, 1 / 2, 1]\<rparr> [- 1, 0, 1] = Inr 1"
proof -
  from estimate_skew_angle_max [of "[- 1, 0, 1]" nn_prims
      "\<lparr>shape = [2, 2], data = [0, 1, 1 / 2, 1]\<rparr>" "\<lambda>_. 1 / 64", OF _ skew_variance_page4]
  obtain a where run: "estimate_skew_angle nn_prims \<lparr>shape = [2, 2], data = [0, 1, 1 / 2, 1]\<rparr>
      [- 1, 0, 1] = Inr a" and mem: "a \<in> set [- 1, 0, 1]"
    and tie: "\<forall>b \<in> set [- 1, 0, 1 :: real]. b \<le> a"
    by auto
  from mem tie have "a = 1" by auto
  with run show ?thesis by simp
qed

text \<open>
  C3, as stated: among the candidates of maximal variance the first one in ascending
  order is returned. On an image of zeros every rotation with a fill of zeros is an image
  of zeros, so both candidates \<open>-1\<close> and \<open>1\<close> have variance 0; the result is \<open>1\<close>.
\<close>

theorem estimate_skew_angle_tie_counterexample:
  "skew_variance nn_prims \<lparr>shape = [2, 2], data = [0, 0, 0, 0]\<rparr> (- 1) = Inr (Fin 0) \<and>
   skew_variance nn_prims \<lparr>shape = [2, 2], data = [0, 0, 0, 0]\<rparr> 1 = Inr (Fin 0) \<and>
   estimate_skew_angle nn_prims \<lparr>shape = [2, 2], data = [0, 0, 0, 0]\<rparr> [- 1, 1] = Inr 1"
  by (simp add: skew_variance_def estimate_skew_angle_def nn_prims_def mean_axis1_def np_mean_def
      np_var_def is_fin_def fin_val_def upt_rec fl_gt_def)

text \<open>The variances are finite as soon as the rotated image has a row and a column.\<close>

lemma skew_variance_finite:
  assumes r: "ndi_rotate P img a 0 True = Inr r" and sh: "shape r = [h, w]"
    and h: "0 < h" and w: "0 < w"
  shows "\<exists>v. skew_variance P img a = Inr (Fin v)"
proof -
  have "mean_axis1 r = Inr (map (\<lambda>i. np_mean (map (\<lambda>j. data r ! (i * w + j)) [0..<w])) [0..<h])"
    using sh by (simp add: mean_axis1_def)
  moreover have "np_mean (map (\<lambda>j. data r ! (i * w + j)) [0..<w]) =
      Fin (sum_list (map (\<lambda>j. data r ! (i * w + j)) [0..<w]) / real w)" for i
    using w by (simp add: np_mean_def)
  ultimately have m: "mean_axis1 r =
      Inr (map (\<lambda>i. Fin (sum_list (map (\<lambda>j. data r ! (i * w + j)) [0..<w]) / real w)) [0..<h])"
    by simp
  have "\<exists>v. np_var (map (\<lambda>i. Fin (g i)) [0..<h]) = Fin v" for g
    using h by (simp add: np_var_def list_all_iff is_fin_def Let_def)
  then show ?thesis using r m by (simp add: skew_variance_def)
qed

section \<open>Threshold estimation\<close>

lemma length_rows_of [simp]: "length (rows_of d0 d1 xs) = d0"
  by (simp add: rows_of_def)








section \<open>The pipeline\<close>

lemma rescale_sample_fin:
  assumes "l \<noteq> h"
  shows "rescale_sample (Fin l) (Fin h) x = Fin (clip 0 1 ((x - l) / (h - l)))"
  using assms by (simp add: rescale_sample_def fl_sub_def clip_def)

lemma clip_unit: "0 \<le> clip 0 1 x \<and> clip 0 1 x \<le> 1"
  by (simp add: clip_def)

lemma nlbin_cases:
  assumes "nlbin P raw args = Inr out"
  obtains img flat0 flat angle lo hi where
    "normalize_raw_image raw = Inr img"
    "estimate_local_whitelevel P img (arg_zoom args) (arg_perc args) (arg_range args) = Inr flat0"
    "estimate_skew P flat0 (arg_bignore args) (arg_maxskew args) (arg_skewsteps args) = Inr (flat, angle)"
    "estimate_thresholds P flat (arg_bignore args) (arg_escale args) (arg_lo args) (arg_hi args) = Inr (lo, hi)"
    "out = amap (rescale_sample lo hi) flat"
proof -
  from assms obtain img where n: "normalize_raw_image raw = Inr img"
    and r1: "bindE (estimate_local_whitelevel P img (arg_zoom args) (arg_perc args) (arg_range args)) (\<lambda>flat.
     bindE (estimate_skew P flat (arg_bignore args) (arg_maxskew args) (arg_skewsteps args)) (\<lambda>(flat, angle).
     bindE (estimate_thresholds P flat (arg_bignore args) (arg_escale args) (arg_lo args) (arg_hi args)) (\<lambda>(lo, hi).
     Inr (amap (rescale_sample lo hi) flat)))) = Inr out"
    unfolding nlbin_def bindE_eq_Inr by blast
  from r1 obtain flat0 where f: "estimate_local_whitelevel P img (arg_zoom args) (arg_perc args) (arg_range args) = Inr flat0"
    and r2: "bindE (estimate_skew P flat0 (arg_bignore args) (arg_maxskew args) (arg_skewsteps args)) (\<lambda>(flat, angle).
     bindE (estimate_thresholds P flat (arg_bignore args) (arg_escale args) (arg_lo args) (arg_hi args)) (\<lambda>(lo, hi).
     Inr (amap (rescale_sample lo hi) flat))) = Inr out"
    unfolding bindE_eq_Inr by blast
  from r2 obtain fa where s0: "estimate_skew P flat0 (arg_bignore args) (arg_maxskew args) (arg_skewsteps args) = Inr fa"
    and r3: "(case fa of (flat, angle) \<Rightarrow>
     bindE (estimate_thresholds P flat (arg_bignore args) (arg_escale args) (arg_lo args) (arg_hi args)) (\<lambda>(lo, hi).
     Inr (amap (rescale_sample lo hi) flat))) = Inr out"
    unfolding bindE_eq_Inr by blast
  obtain flat angle where fa: "fa = (flat, angle)" by (cases fa)
  from r3 fa have r3': "bindE (estimate_thresholds P flat (arg_bignore args) (arg_escale args) (arg_lo args) (arg_hi args))
      (\<lambda>(lo, hi). Inr (amap (rescale_sample lo hi) flat)) = Inr out"
    by simp
  show ?thesis
  proof (cases "estimate_thresholds P flat (arg_bignore args) (arg_escale args) (arg_lo args) (arg_hi args)")
    case (Inl e)
    with r3' show ?thesis by simp
  next
    case (Inr lh)
    obtain lo hi where lh: "lh = (lo, hi)" by (cases lh)
    from r3' Inr lh have out: "out = amap (rescale_sample lo hi) flat" by simp
    from s0 fa have s: "estimate_skew P flat0 (arg_bignore args) (arg_maxskew args)
        (arg_skewsteps args) = Inr (flat, angle)" by simp
    from Inr lh have t: "estimate_thresholds P flat (arg_bignore args) (arg_escale args)
        (arg_lo args) (arg_hi args) = Inr (lo, hi)" by simp
    from n f s t out show ?thesis by (rule that)
  qed
qed

text \<open>
  C1, amended: whenever \<^verbatim>\<open>nlbin\<close> returns, its result is the deskewed flattened image
  with \<open>clip ((flat - lo) / (hi - lo)) 0 1\<close> applied to each sample in IEEE arithmetic,
  for the thresholds \<open>lo\<close> and \<open>hi\<close> estimated on that image. When both thresholds are
  finite and different this is the real quotient, clipped, and every sample of the result
  lies in [0, 1].
\<close>

theorem nlbin_rescale:
  assumes "nlbin P raw args = Inr out"
  shows "\<exists>img flat0 flat angle lo hi.
           normalize_raw_image raw = Inr img \<and>
           estimate_local_whitelevel P img (arg_zoom args) (arg_perc args) (arg_range args)
             = Inr flat0 \<and>
           estimate_skew P flat0 (arg_bignore args) (arg_maxskew args) (arg_skewsteps args)
             = Inr (flat, angle) \<and>
           estimate_thresholds P flat (arg_bignore args) (arg_escale args) (arg_lo args)
             (arg_hi args) = Inr (lo, hi) \<and>
           out = amap (\<lambda>x. fl_clip 0 1 (fl_div (fl_sub (Fin x) lo) (fl_sub hi lo))) flat \<and>
           (\<forall>l h. lo = Fin l \<and> hi = Fin h \<and> l \<noteq> h \<longrightarrow>
              out = amap (\<lambda>x. Fin (clip 0 1 ((x - l) / (h - l)))) flat \<and>
              list_all in_unit (data out))"
proof -
  from assms obtain img flat0 flat angle lo hi where
    n: "normalize_raw_image raw = Inr img"
    and f: "estimate_local_whitelevel P img (arg_zoom args) (arg_perc args) (arg_range args) = Inr flat0"
    and s: "estimate_skew P flat0 (arg_bignore args) (arg_maxskew args) (arg_skewsteps args) = Inr (flat, angle)"
    and t: "estimate_thresholds P flat (arg_bignore args) (arg_escale args) (arg_lo args) (arg_hi args) = Inr (lo, hi)"
    and out: "out = amap (rescale_sample lo hi) flat"
    by (rule nlbin_cases)
  have o1: "out = amap (\<lambda>x. fl_clip 0 1 (fl_div (fl_sub (Fin x) lo) (fl_sub hi lo))) flat"
    using out by (simp add: rescale_sample_def [abs_def])
  have o2: "out = amap (\<lambda>x. Fin (clip 0 1 ((x - l) / (h - l)))) flat \<and> list_all in_unit (data out)"
    if "lo = Fin l" "hi = Fin h" "l \<noteq> h" for l h
  proof -
    have "rescale_sample lo hi = (\<lambda>x. Fin (clip 0 1 ((x - l) / (h - l))))"
      using that by (simp add: rescale_sample_fin fun_eq_iff)
    with out have eq: "out = amap (\<lambda>x. Fin (clip 0 1 ((x - l) / (h - l)))) flat" by simp
    then have "list_all in_unit (data out)"
      by (simp add: list_all_iff in_unit_def clip_unit)
    with eq show ?thesis by simp
  qed
  from n f s t o1 o2 show ?thesis by blast
qed

lemma norm_page2: "normalize_raw_image page2 = Inr page2"
  by (simp add: page2_def normalize_raw_image_def amap_def)

lemma flat_page2: "estimate_local_whitelevel nn_prims page2 (1 / 2) 80 20 = Inr page2"
  by (simp add: page2_def estimate_local_whitelevel_def nn_prims_def nn_zoom_def py_round_def
      Let_def azip_def slice2_def py_slice_def slice_index_def rows_of_def amap_def clip_def
      upt_rec)

lemma skew_page2: "estimate_skew nn_prims page2 (1 / 10) (1 / 2) 2 = Inr (page2, 1 / 2)"
  by (simp add: page2_def estimate_skew_def nn_prims_def Let_def py_int_def linspace_def
      estimate_skew_angle_def slice2_def py_slice_def slice_index_def rows_of_def amap_def
      mean_axis1_def np_mean_def np_var_def is_fin_def fin_val_def fl_gt_def upt_rec)

lemma thr_page2: "estimate_thresholds nn_prims page2 (1 / 10) 0 5 90 = Inr (Fin (3 / 40), Fin 1)"
  by (simp add: estimate_thresholds_def page2_def nn_prims_def lin_percentile_def Let_def
      py_int_def slice2_def py_slice_def slice_index_def rows_of_def upt_rec)

lemma nlbin_page2:
  "nlbin nn_prims page2 (default_args\<lparr>arg_escale := 0, arg_maxskew := 1 / 2, arg_skewsteps := 2\<rparr>) =
     Inr \<lparr>shape = [2, 2], data = [Fin 1, Fin 0, Fin (17 / 37), Fin 1]\<rparr>"
  by (simp add: nlbin_def default_args_def norm_page2 flat_page2 skew_page2 thr_page2)
     (simp add: page2_def amap_def rescale_sample_def fl_sub_def)

theorem nlbin_rescale_witness:
  "nlbin nn_prims page2 (default_args\<lparr>arg_escale := 0, arg_maxskew := 1 / 2, arg_skewsteps := 2\<rparr>) =
     Inr \<lparr>shape = [2, 2], data = [Fin 1, Fin 0, Fin (17 / 37), Fin 1]\<rparr> \<and>
   list_all in_unit [Fin 1, Fin 0, Fin (17 / 37), Fin 1]"
proof -
  let ?args = "default_args\<lparr>arg_escale := 0, arg_maxskew := 1 / 2, arg_skewsteps := 2\<rparr>"
  let ?out = "\<lparr>shape = [2, 2], data = [Fin 1, Fin 0, Fin (17 / 37), Fin 1]\<rparr>"
  have a: "arg_zoom ?args = 1 / 2" "arg_perc ?args = 80" "arg_range ?args = 20"
    "arg_bignore ?args = 1 / 10" "arg_maxskew ?args = 1 / 2" "arg_skewsteps ?args = 2"
    "arg_escale ?args = 0" "arg_lo ?args = 5" "arg_hi ?args = 90"
    by (simp_all add: default_args_def)
  from nlbin_rescale [OF nlbin_page2] obtain img flat0 flat angle lo hi where
    n: "normalize_raw_image page2 = Inr img"
    and f: "estimate_local_whitelevel nn_prims img (arg_zoom ?args) (arg_perc ?args)
        (arg_range ?args) = Inr flat0"
    and s: "estimate_skew nn_prims flat0 (arg_bignore ?args) (arg_maxskew ?args)
        (arg_skewsteps ?args) = Inr (flat, angle)"
    and t: "estimate_thresholds nn_prims flat (arg_bignore ?args) (arg_escale ?args)
        (arg_lo ?args) (arg_hi ?args) = Inr (lo, hi)"
    and u: "\<forall>l h. lo = Fin l \<and> hi = Fin h \<and> l \<noteq> h \<longrightarrow>
        ?out = amap (\<lambda>x. Fin (clip 0 1 ((x - l) / (h - l)))) flat \<and>
        list_all in_unit (data ?out)"
    by blast
  from n have img: "img = page2" by (simp add: norm_page2)
  from f have flat0: "flat0 = page2" unfolding a img by (simp add: flat_page2)
  from s have flat: "flat = page2" unfolding a flat0 by (simp add: skew_page2)
  from t have lohi: "lo = Fin (3 / 40) \<and> hi = Fin 1 \<and> (3 / 40 :: real) \<noteq> 1"
    unfolding a flat by (simp add: thr_page2)
  from u [THEN spec, THEN spec, THEN mp, OF lohi]
  have "list_all in_unit (data ?out)" by (rule conjunct2)
  with nlbin_page2 show ?thesis by simp
qed

lemma norm_page2_dark: "normalize_raw_image page2_dark = Inr page2_dark"
  by (simp add: page2_dark_def normalize_raw_image_def amap_def)

lemma flat_page2_dark:
  "estimate_local_whitelevel nn_prims page2_dark (1 / 2) 80 20 =
     Inr \<lparr>shape = [2, 2], data = [1, 1, 1, 1]\<rparr>"
  by (simp add: page2_dark_def estimate_local_whitelevel_def nn_prims_def nn_zoom_def
      py_round_def Let_def azip_def slice2_def py_slice_def slice_index_def rows_of_def amap_def
      clip_def upt_rec)

lemma skew_page2_dark:
  "estimate_skew nn_prims \<lparr>shape = [2, 2], data = [1, 1, 1, 1]\<rparr> (1 / 10) (1 / 2) 2 =
     Inr (\<lparr>shape = [2, 2], data = [0, 0, 0, 0]\<rparr>, 1 / 2)"
  by (simp add: estimate_skew_def nn_prims_def Let_def py_int_def linspace_def
      estimate_skew_angle_def slice2_def py_slice_def slice_index_def rows_of_def amap_def
      mean_axis1_def np_mean_def np_var_def is_fin_def fin_val_def fl_gt_def upt_rec)

lemma thr_page2_dark:
  "estimate_thresholds nn_prims \<lparr>shape = [2, 2], data = [0, 0, 0, 0]\<rparr> (1 / 10) 0 5 90 =
     Inr (Fin 0, Fin 0)"
  by (simp add: estimate_thresholds_def nn_prims_def lin_percentile_def Let_def
      py_int_def slice2_def py_slice_def slice_index_def rows_of_def upt_rec)

text \<open>
  C1, as stated: every sample of the result lies in [0, 1]. When the two percentiles
  coincide the divisor \<open>hi - lo\<close> is zero, and a sample equal to \<open>lo\<close> becomes 0/0.
  This page flattens to a uniform image, both thresholds are 0, and all samples of the
  result are NaN.
\<close>

theorem nlbin_rescale_counterexample:
  "nlbin nn_prims page2_dark
       (default_args\<lparr>arg_escale := 0, arg_maxskew := 1 / 2, arg_skewsteps := 2\<rparr>) =
     Inr \<lparr>shape = [2, 2], data = [NaN, NaN, NaN, NaN]\<rparr> \<and> \<not> in_unit NaN"
  by (simp add: nlbin_def default_args_def norm_page2_dark flat_page2_dark skew_page2_dark
        thr_page2_dark)
     (simp add: amap_def rescale_sample_def fl_sub_def in_unit_def)

section \<open>Input validation\<close>








text \<open>
  The flag \<open>arg_nocheck\<close> has no effect on \<^verbatim>\<open>nlbin\<close>, and \<^verbatim>\<open>nlbin\<close> processes a page that
  \<^verbatim>\<open>check_page\<close> rejects.
\<close>

lemma nlbin_ignores_nocheck: "nlbin P raw (args\<lparr>arg_nocheck := b\<rparr>) = nlbin P raw args"
  by (simp add: nlbin_def)

lemma check_page_page2: "check_page page2 = Inl MayBeInverted"
  by (simp add: check_page_def page2_def np_mean_def np_median_def)

section \<open>The stages on the store\<close>

lemma extends_refl [simp]: "extends s s"
  by (simp add: extends_def)

lemma extends_trans: "extends s1 s2 \<Longrightarrow> extends s2 s3 \<Longrightarrow> extends s1 s3"
  by (auto simp: extends_def)

lemma alloc_facts:
  assumes "alloc c s = (p, s')"
  shows "p = fresh s" "fresh s' = Suc (fresh s)" "mem s' p = Some c" "extends s s'"
  using assms by (auto simp: alloc_def extends_def)

lemma assign_facts:
  "fresh (assign p c s) = fresh s" "mem (assign p c s) p = Some c"
  by (simp_all add: assign_def)

lemma extends_assign:
  assumes "extends s0 s" and "fresh s0 \<le> p"
  shows "extends s0 (assign p c s)"
  using assms by (auto simp: extends_def assign_def)

lemma load_Reals: "mem s p = Some (Reals a) \<Longrightarrow> load p s = Inr a"
  by (simp add: load_def)

lemma load_Inr: "load p s = Inr a \<longleftrightarrow> mem s p = Some (Reals a)"
  by (auto simp: load_def split: option.splits cell.splits)

lemma normalize_st_sound:
  assumes "normalize_raw_image_st raw s = Inr (p, s')"
  shows "\<exists>r out. load raw s = Inr r \<and> normalize_raw_image r = Inr out \<and>
           load p s' = Inr out \<and> extends s s' \<and> fresh s \<le> p \<and> p < fresh s'"
proof -
  from assms obtain r lo where r: "load raw s = Inr r" and lo: "np_amin (data r) = Inr lo"
    and rest: "(let (img, s) = alloc (Reals (amap (\<lambda>x. x - lo) r)) s in
     bindE (load img s) (\<lambda>i.
     bindE (np_amax (data i)) (\<lambda>mx.
     bindE (np_amin (data i)) (\<lambda>mn.
     if mx = mn then Inl ImageIsEmpty else
     bindE (load img s) (\<lambda>i.
     bindE (np_amax (data i)) (\<lambda>mx.
     Inr (img, assign img (Reals (amap (\<lambda>x. x / mx) i)) s))))))) = Inr (p, s')"
    unfolding normalize_raw_image_st_def bindE_eq_Inr by blast
  obtain img s1 where al: "alloc (Reals (amap (\<lambda>x. x - lo) r)) s = (img, s1)"
    by (cases "alloc (Reals (amap (\<lambda>x. x - lo) r)) s")
  note a = alloc_facts [OF al]
  have ld: "load img s1 = Inr (amap (\<lambda>x. x - lo) r)" using a(3) by (rule load_Reals)
  from rest al ld obtain mx mn where mx: "np_amax (data (amap (\<lambda>x. x - lo) r)) = Inr mx"
    and mn: "np_amin (data (amap (\<lambda>x. x - lo) r)) = Inr mn" and ne: "mx \<noteq> mn"
    and p: "p = img" and s': "s' = assign img (Reals (amap (\<lambda>x. x / mx) (amap (\<lambda>x. x - lo) r))) s1"
    by (auto simp: bindE_eq_Inr split: if_splits)
  have pure: "normalize_raw_image r = Inr (amap (\<lambda>x. x / mx) (amap (\<lambda>x. x - lo) r))"
    using lo mx mn ne by (simp add: normalize_raw_image_def Let_def)
  have "load p s' = Inr (amap (\<lambda>x. x / mx) (amap (\<lambda>x. x - lo) r))"
    unfolding p s' by (rule load_Reals) (rule assign_facts)
  moreover have "extends s s'" unfolding s' using a(4) a(1) by (intro extends_assign) simp_all
  moreover have "fresh s \<le> p" "p < fresh s'" using a p s' by (simp_all add: assign_facts)
  ultimately show ?thesis using r pure by blast
qed

lemma normalize_st_complete:
  assumes "load raw s = Inr r" and "normalize_raw_image r = Inr out"
  shows "\<exists>p s'. normalize_raw_image_st raw s = Inr (p, s')"
proof -
  from assms(2) obtain lo mx mn where lo: "np_amin (data r) = Inr lo"
    and mx: "np_amax (data (amap (\<lambda>x. x - lo) r)) = Inr mx"
    and mn: "np_amin (data (amap (\<lambda>x. x - lo) r)) = Inr mn" and ne: "mx \<noteq> mn"
    by (auto simp: normalize_raw_image_def Let_def bindE_eq_Inr split: if_splits)
  have ld: "load (fresh s) (s\<lparr>mem := (mem s)(fresh s \<mapsto> Reals (amap (\<lambda>x. x - lo) r)),
      fresh := Suc (fresh s)\<rparr>) = Inr (amap (\<lambda>x. x - lo) r)"
    by (simp add: load_def)
  show ?thesis
    unfolding normalize_raw_image_st_def
    using assms(1) lo mx mn ne ld by (simp add: alloc_def Let_def)
qed

lemma whitelevel_st_sound:
  assumes "estimate_local_whitelevel_st P img zoom perc rng s = Inr (p, s')"
  shows "\<exists>i out. load img s = Inr i \<and> estimate_local_whitelevel P i zoom perc rng = Inr out \<and>
           load p s' = Inr out \<and> extends s s' \<and> fresh s \<le> p \<and> p < fresh s'"
proof -
  from assms obtain i out where i: "load img s = Inr i"
    and out: "estimate_local_whitelevel P i zoom perc rng = Inr out"
    and al: "alloc (Reals out) s = (p, s')"
    unfolding estimate_local_whitelevel_st_def bindE_eq_Inr by auto
  note a = alloc_facts [OF al]
  have "load p s' = Inr out" using a(3) by (rule load_Reals)
  with i out a show ?thesis by auto
qed

lemma whitelevel_st_complete:
  assumes "load img s = Inr i" and "estimate_local_whitelevel P i zoom perc rng = Inr out"
  shows "\<exists>p s'. estimate_local_whitelevel_st P img zoom perc rng s = Inr (p, s')"
  using assms by (simp add: estimate_local_whitelevel_st_def alloc_def)

lemma thresholds_st_sound:
  assumes "estimate_thresholds_st P flat bignore escale lo hi s = Inr (r, s')"
  shows "\<exists>f. load flat s = Inr f \<and> estimate_thresholds P f bignore escale lo hi = Inr r \<and> s' = s"
  using assms unfolding estimate_thresholds_st_def bindE_eq_Inr by auto

lemma thresholds_st_complete:
  assumes "load flat s = Inr f" and "estimate_thresholds P f bignore escale lo hi = Inr r"
  shows "estimate_thresholds_st P flat bignore escale lo hi s = Inr (r, s)"
  using assms by (simp add: estimate_thresholds_st_def)

lemma skew_st_sound:
  assumes "estimate_skew_st P flat bignore maxskew skewsteps s = Inr ((p, angle), s')"
  shows "\<exists>f out. load flat s = Inr f \<and>
           estimate_skew P f bignore maxskew skewsteps = Inr (out, angle) \<and>
           load p s' = Inr out \<and> extends s s' \<and> fresh s \<le> p \<and> p < fresh s'"
proof -
  obtain f where f: "load flat s = Inr f"
    using assms by (cases "load flat s") (simp_all add: estimate_skew_st_def)
  obtain d0 d1 where sh: "shape f = [d0, d1]"
    using assms f by (auto simp: estimate_skew_st_def split: list.splits)
  show ?thesis
    using assms f sh unfolding estimate_skew_st_def estimate_skew_def
    by (auto simp: bindE_eq_Inr alloc_def assign_def load_Inr Let_def extends_def)
qed

lemma skew_st_complete:
  assumes f: "load flat s = Inr f"
    and pure: "estimate_skew P f bignore maxskew skewsteps = Inr (out, angle)"
  shows "\<exists>p s'. estimate_skew_st P flat bignore maxskew skewsteps s = Inr ((p, angle), s')"
proof -
  obtain d0 d1 where sh: "shape f = [d0, d1]"
    using pure by (auto simp: estimate_skew_def split: list.splits)
  show ?thesis
    using f pure sh unfolding estimate_skew_st_def estimate_skew_def
    by (auto simp: bindE_eq_Inr alloc_def assign_def load_Inr Let_def)
qed

lemma bindE_pair:
  "bindE m (\<lambda>(a, b). f a b) = Inr y \<longleftrightarrow> (\<exists>a b. m = Inr (a, b) \<and> f a b = Inr y)"
  by (cases m) auto

lemma load_floats_Reals: "load p s = Inr a \<Longrightarrow> load_floats p s = Inr (amap Fin a)"
  by (simp add: load_floats_def load_Inr)

lemma load_floats_assign: "load_floats p (assign p (Floats a) s) = Inr a"
  by (simp add: load_floats_def assign_def)

lemma rescale_steps:
  "amap (fl_clip 0 1) (amap (\<lambda>x. fl_div x (fl_sub hi lo)) (amap (\<lambda>x. fl_sub x lo) (amap Fin f)))
     = amap (rescale_sample lo hi) f"
  by (simp add: amap_def rescale_sample_def)

lemma nlbin_st_sound:
  assumes "nlbin_st P raw args s = Inr (p, s')"
  shows "\<exists>r out. load raw s = Inr r \<and> nlbin P r args = Inr out \<and>
           mem s' p = Some (Floats out) \<and> extends s s' \<and> fresh s \<le> p \<and> p < fresh s'"
proof -
  from assms obtain x1 x2 x3 x4 where
    n0: "normalize_raw_image_st raw s = Inr x1"
    and w0: "estimate_local_whitelevel_st P (fst x1) (arg_zoom args) (arg_perc args)
        (arg_range args) (snd x1) = Inr x2"
    and k0: "estimate_skew_st P (fst x2) (arg_bignore args) (arg_maxskew args)
        (arg_skewsteps args) (snd x2) = Inr x3"
    and t0: "estimate_thresholds_st P (fst (fst x3)) (arg_bignore args) (arg_escale args)
        (arg_lo args) (arg_hi args) (snd x3) = Inr x4"
    and rest0: "bindE (load_floats (fst (fst x3)) (snd x4)) (\<lambda>f.
       let s = assign (fst (fst x3)) (Floats (amap (\<lambda>x. fl_sub x (fst (fst x4))) f)) (snd x4) in
       bindE (load_floats (fst (fst x3)) s) (\<lambda>f.
       let s = assign (fst (fst x3))
                 (Floats (amap (\<lambda>x. fl_div x (fl_sub (snd (fst x4)) (fst (fst x4)))) f)) s in
       bindE (load_floats (fst (fst x3)) s) (\<lambda>f.
       Inr (alloc (Floats (amap (fl_clip 0 1) f)) s)))) = Inr (p, s')"
    unfolding nlbin_st_def split_def bindE_eq_Inr by blast
  obtain img s1 where x1: "x1 = (img, s1)" by (cases x1)
  obtain flat0 s2 where x2: "x2 = (flat0, s2)" by (cases x2)
  obtain flat angle s3 where x3: "x3 = ((flat, angle), s3)" by (cases x3) auto
  obtain lo hi s4 where x4: "x4 = ((lo, hi), s4)" by (cases x4) auto
  from n0 x1 have n: "normalize_raw_image_st raw s = Inr (img, s1)" by simp
  from w0 x1 x2 have w: "estimate_local_whitelevel_st P img (arg_zoom args) (arg_perc args)
      (arg_range args) s1 = Inr (flat0, s2)" by simp
  from k0 x2 x3 have k: "estimate_skew_st P flat0 (arg_bignore args) (arg_maxskew args)
      (arg_skewsteps args) s2 = Inr ((flat, angle), s3)" by simp
  from t0 x3 x4 have t: "estimate_thresholds_st P flat (arg_bignore args) (arg_escale args)
      (arg_lo args) (arg_hi args) s3 = Inr ((lo, hi), s4)" by simp
  from rest0 x3 x4 have rest: "bindE (load_floats flat s4) (\<lambda>f.
       let s = assign flat (Floats (amap (\<lambda>x. fl_sub x lo) f)) s4 in
       bindE (load_floats flat s) (\<lambda>f.
       let s = assign flat (Floats (amap (\<lambda>x. fl_div x (fl_sub hi lo)) f)) s in
       bindE (load_floats flat s) (\<lambda>f.
       Inr (alloc (Floats (amap (fl_clip 0 1) f)) s)))) = Inr (p, s')"
    by simp
  from normalize_st_sound [OF n] obtain r i where r: "load raw s = Inr r"
    and pn: "normalize_raw_image r = Inr i" and li: "load img s1 = Inr i"
    and e1: "extends s s1" by blast
  from whitelevel_st_sound [OF w] li obtain f0 where
    pw: "estimate_local_whitelevel P i (arg_zoom args) (arg_perc args) (arg_range args) = Inr f0"
    and lf0: "load flat0 s2 = Inr f0" and e2: "extends s1 s2" by auto
  from skew_st_sound [OF k] lf0 obtain f where
    pk: "estimate_skew P f0 (arg_bignore args) (arg_maxskew args) (arg_skewsteps args) = Inr (f, angle)"
    and lf: "load flat s3 = Inr f" and e3: "extends s2 s3"
    and fr: "fresh s2 \<le> flat" "flat < fresh s3" by auto
  from thresholds_st_sound [OF t] lf have
    pt: "estimate_thresholds P f (arg_bignore args) (arg_escale args) (arg_lo args) (arg_hi args)
      = Inr (lo, hi)" and s4: "s4 = s3" by auto
  define sa where "sa = assign flat (Floats (amap (\<lambda>x. fl_sub x lo) (amap Fin f))) s3"
  define sb where "sb = assign flat (Floats (amap (\<lambda>x. fl_div x (fl_sub hi lo))
      (amap (\<lambda>x. fl_sub x lo) (amap Fin f)))) sa"
  have al: "alloc (Floats (amap (rescale_sample lo hi) f)) sb = (p, s')"
    using rest unfolding s4
    by (simp add: load_floats_Reals [OF lf] load_floats_assign Let_def rescale_steps sa_def sb_def)
  note a = alloc_facts [OF al]
  have e13: "extends s s3" using e1 e2 e3 by (blast intro: extends_trans)
  have le: "fresh s \<le> flat" using e1 e2 fr(1) by (simp add: extends_def)
  have ea: "extends s sa" unfolding sa_def using e13 le by (rule extends_assign)
  have eb: "extends s sb" unfolding sb_def using ea le by (rule extends_assign)
  have frb: "fresh sb = fresh s3" by (simp add: sa_def sb_def assign_facts)
  have "nlbin P r args = Inr (amap (rescale_sample lo hi) f)"
    using pn pw pk pt by (simp add: nlbin_def)
  moreover have "extends s s'" using eb a(4) by (rule extends_trans)
  moreover have "fresh s \<le> p" "p < fresh s'" using a frb e13 by (simp_all add: extends_def)
  ultimately show ?thesis using r a(3) by blast
qed

lemma nlbin_st_complete:
  assumes r: "load raw s = Inr r" and pure: "nlbin P r args = Inr out"
  shows "\<exists>p s'. nlbin_st P raw args s = Inr (p, s')"
proof -
  from pure obtain i f0 fa lh where
    pn: "normalize_raw_image r = Inr i"
    and pw: "estimate_local_whitelevel P i (arg_zoom args) (arg_perc args) (arg_range args) = Inr f0"
    and pk: "estimate_skew P f0 (arg_bignore args) (arg_maxskew args) (arg_skewsteps args) = Inr fa"
    and pt: "estimate_thresholds P (fst fa) (arg_bignore args) (arg_escale args) (arg_lo args)
      (arg_hi args) = Inr lh"
    unfolding nlbin_def split_def bindE_eq_Inr by blast
  obtain f angle where fa: "fa = (f, angle)" by (cases fa)
  obtain lo hi where lh: "lh = (lo, hi)" by (cases lh)
  from normalize_st_complete [OF r pn] obtain img s1 where
    n: "normalize_raw_image_st raw s = Inr (img, s1)" by blast
  from normalize_st_sound [OF n] r pn have li: "load img s1 = Inr i" by auto
  from whitelevel_st_complete [OF li pw] obtain flat0 s2 where
    w: "estimate_local_whitelevel_st P img (arg_zoom args) (arg_perc args) (arg_range args) s1
        = Inr (flat0, s2)" by blast
  from whitelevel_st_sound [OF w] li pw have lf0: "load flat0 s2 = Inr f0" by auto
  from skew_st_complete [OF lf0 pk [unfolded fa]] obtain flat s3 where
    k: "estimate_skew_st P flat0 (arg_bignore args) (arg_maxskew args) (arg_skewsteps args) s2
        = Inr ((flat, angle), s3)" by blast
  from skew_st_sound [OF k] lf0 pk fa have lf: "load flat s3 = Inr f" by auto
  from pt fa lh have pt': "estimate_thresholds P f (arg_bignore args) (arg_escale args)
      (arg_lo args) (arg_hi args) = Inr (lo, hi)" by simp
  note t = thresholds_st_complete [OF lf pt']
  show ?thesis
    unfolding nlbin_st_def using n w k t
    by (simp add: load_floats_Reals [OF lf] load_floats_assign Let_def alloc_def)
qed

text \<open>
  C9. Each of the five stages, run on a store, leaves every array that was allocated
  before the call as it was, in particular the array passed to it, and returns a cell
  that it has allocated itself; \<^verbatim>\<open>estimate_thresholds\<close> writes nothing at all. The
  augmented assignments of \<^verbatim>\<open>normalize_raw_image\<close>, \<^verbatim>\<open>estimate_skew\<close> and \<^verbatim>\<open>nlbin\<close>
  overwrite cells that the same call has allocated. The lemmas above relate each stage on
  the store to the stage on values: the returned cell holds the value that the function
  on values computes.
\<close>

theorem stages_leave_input_unchanged:
  "(normalize_raw_image_st raw s = Inr (p, s') \<longrightarrow>
      extends s s' \<and> fresh s \<le> p \<and> p < fresh s') \<and>
   (estimate_local_whitelevel_st P raw zoom perc rng s = Inr (p, s') \<longrightarrow>
      extends s s' \<and> fresh s \<le> p \<and> p < fresh s') \<and>
   (estimate_skew_st P raw bignore maxskew skewsteps s = Inr ((p, angle), s') \<longrightarrow>
      extends s s' \<and> fresh s \<le> p \<and> p < fresh s') \<and>
   (estimate_thresholds_st P raw bignore escale lo hi s = Inr (th, s') \<longrightarrow> s' = s) \<and>
   (nlbin_st P raw args s = Inr (p, s') \<longrightarrow>
      extends s s' \<and> fresh s \<le> p \<and> p < fresh s') \<and>
   (extends s s' \<and> raw < fresh s \<longrightarrow> mem s' raw = mem s raw)"
  using normalize_st_sound [of raw s p s'] whitelevel_st_sound [of P raw zoom perc rng s p s']
    skew_st_sound [of P raw bignore maxskew skewsteps s p angle s']
    thresholds_st_sound [of P raw bignore escale lo hi s th s']
    nlbin_st_sound [of P raw args s p s']
  by (auto simp: extends_def)

theorem stages_leave_input_unchanged_witness:
  "\<exists>p s'. nlbin_st nn_prims 0
              (default_args\<lparr>arg_escale := 0, arg_maxskew := 1 / 2, arg_skewsteps := 2\<rparr>)
              (store1 page2) = Inr (p, s') \<and>
           mem s' 0 = Some (Reals page2) \<and> 1 \<le> p \<and>
           mem s' p = Some (Floats \<lparr>shape = [2, 2],
                                     data = [Fin 1, Fin 0, Fin (17 / 37), Fin 1]\<rparr>)"
proof -
  let ?args = "default_args\<lparr>arg_escale := 0, arg_maxskew := 1 / 2, arg_skewsteps := 2\<rparr>"
  have ld: "load 0 (store1 page2) = Inr page2" by (simp add: load_def store1_def)
  from nlbin_st_complete [OF ld nlbin_page2] obtain p s' where
    run: "nlbin_st nn_prims 0 ?args (store1 page2) = Inr (p, s')" by blast
  from stages_leave_input_unchanged [where raw = 0 and s = "store1 page2" and p = p
      and s' = s' and P = nn_prims and args = ?args] run
  have ext: "extends (store1 page2) s'" and fr: "fresh (store1 page2) \<le> p"
    and keep: "extends (store1 page2) s' \<and> 0 < fresh (store1 page2) \<longrightarrow>
      mem s' 0 = mem (store1 page2) 0"
    by blast+
  from keep ext have m0: "mem s' 0 = Some (Reals page2)" by (simp add: store1_def)
  from fr have p1: "1 \<le> p" by (simp add: store1_def)
  from nlbin_st_sound [OF run] ld nlbin_page2
  have "mem s' p = Some (Floats \<lparr>shape = [2, 2], data = [Fin 1, Fin 0, Fin (17 / 37), Fin 1]\<rparr>)"
    by auto
  with run m0 p1 show ?thesis by blast
qed

end
